theory Spec2Isabelle
  imports Complex_Main
begin

section \<open>Values, dictionaries and exceptions\<close>

text \<open>
  The pipeline of \<^verbatim>\<open>lib/extractors/extract_blocks.py\<close> reads one JSON document with
  \<^verbatim>\<open>json.load\<close> and passes its parts on unchecked, so every value it handles may be any
  JSON value: \<^verbatim>\<open>None\<close>, a boolean, an integer (unbounded, hence \<^typ>\<open>int\<close>), a float, a
  string, a list or a dictionary. A finite float is identified with the real number it
  denotes. A dictionary is the list of its items, in order, with distinct keys.
\<close>

datatype json =
    JNull
  | JBool bool
  | JInt int
  | JFloat real
  | JStr string
  | JArr "json list"
  | JObj "(string \<times> json) list"

datatype py_error =
    KeyError string
  | TypeError
  | AttributeError
  | UnicodeEncodeError
  | ValidationError
  | ZeroDivisionError
  | SerializationError

text \<open>Sequencing of two steps, the first of which may raise.\<close>

fun and_then :: "py_error + 'a \<Rightarrow> ('a \<Rightarrow> py_error + 'b) \<Rightarrow> py_error + 'b" where
  "and_then (Inl e) f = Inl e"
| "and_then (Inr x) f = f x"

text \<open>
  \<^verbatim>\<open>d[k]\<close> with a string key: a dictionary without the key raises \<^verbatim>\<open>KeyError\<close>, any
  other value raises \<^verbatim>\<open>TypeError\<close> (a string or a list takes integer indices, the other
  values take none).
\<close>

fun getitem :: "json \<Rightarrow> string \<Rightarrow> py_error + json" where
  "getitem (JObj items) k =
     (case map_of items k of None \<Rightarrow> Inl (KeyError k) | Some v \<Rightarrow> Inr v)"
| "getitem v k = Inl TypeError"

text \<open>
  \<^verbatim>\<open>d.get(k, default)\<close> never raises on a dictionary; no other JSON value has an
  attribute \<^verbatim>\<open>get\<close>.
\<close>

fun get_default :: "json \<Rightarrow> string \<Rightarrow> json \<Rightarrow> py_error + json" where
  "get_default (JObj items) k dflt =
     Inr (case map_of items k of None \<Rightarrow> dflt | Some v \<Rightarrow> v)"
| "get_default v k dflt = Inl AttributeError"

text \<open>
  The elements \<^verbatim>\<open>enumerate\<close> iterates over: those of a list, the keys of a dictionary,
  the characters of a string; the other values are not iterable.
\<close>

fun py_iter :: "json \<Rightarrow> py_error + json list" where
  "py_iter (JArr xs) = Inr xs"
| "py_iter (JObj items) = Inr (map (\<lambda>kv. JStr (fst kv)) items)"
| "py_iter (JStr s) = Inr (map (\<lambda>c. JStr [c]) s)"
| "py_iter v = Inl TypeError"

text \<open>Decimal rendering of an integer, as \<^verbatim>\<open>str\<close> and the f-strings produce it.\<close>

fun str_nat :: "nat \<Rightarrow> string" where
  "str_nat n =
     (if n < 10 then [''0123456789'' ! n]
      else str_nat (n div 10) @ [''0123456789'' ! (n mod 10)])"

definition str_int :: "int \<Rightarrow> string" where
  "str_int i = (if i < 0 then CHR ''-'' # str_nat (nat (- i)) else str_nat (nat i))"

text \<open>
  Numbers: the result of \<^verbatim>\<open>a - b + 1\<close> is an integer when both operands are integers
  or booleans (\<^verbatim>\<open>True\<close> is 1, \<^verbatim>\<open>False\<close> is 0), a float when one of them is a float, and
  a \<^verbatim>\<open>TypeError\<close> for every other operand. The float result is the real result: rounding
  and overflow are not modelled.
\<close>

datatype number = NInt int | NFloat real

fun as_number :: "json \<Rightarrow> number option" where
  "as_number (JInt i) = Some (NInt i)"
| "as_number (JBool b) = Some (NInt (if b then 1 else 0))"
| "as_number (JFloat x) = Some (NFloat x)"
| "as_number v = None"

fun num_val :: "number \<Rightarrow> real" where
  "num_val (NInt i) = of_int i"
| "num_val (NFloat x) = x"

fun num_sub_plus_one :: "number \<Rightarrow> number \<Rightarrow> number" where
  "num_sub_plus_one (NInt a) (NInt b) = NInt (a - b + 1)"
| "num_sub_plus_one a b = NFloat (num_val a - num_val b + 1)"

definition sub_plus_one :: "json \<Rightarrow> json \<Rightarrow> py_error + number" where
  "sub_plus_one a b =
     (case as_number a of
        None \<Rightarrow> Inl TypeError
      | Some x \<Rightarrow>
          (case as_number b of None \<Rightarrow> Inl TypeError | Some y \<Rightarrow> Inr (num_sub_plus_one x y)))"

text \<open>\<^verbatim>\<open>a // b\<close>: floor division, \<^verbatim>\<open>ZeroDivisionError\<close> on a zero divisor.\<close>

definition floordiv :: "int \<Rightarrow> int \<Rightarrow> py_error + int" where
  "floordiv a b = (if b = 0 then Inl ZeroDivisionError else Inr (a div b))"

section \<open>The data model\<close>

text \<open>
  Modelled from the spec: the classes \<^verbatim>\<open>SourceLocation\<close>, \<^verbatim>\<open>CodeBlock\<close>,
  \<^verbatim>\<open>DuplicateGroup\<close> and \<^verbatim>\<open>ConsolidationSuggestion\<close> are declared in \<^verbatim>\<open>lib/models\<close>,
  which is not part of the source. A record holds the fields the source passes to the
  constructor, with the types of sections 3 and 6 of the specification: paths, rule
  identifiers and source text are strings, line numbers and the line count are integers.
  Field names that occur in more than one class carry the prefix \<open>dg_\<close>
  (DuplicateGroup) or \<open>cs_\<close> (ConsolidationSuggestion).
\<close>

record source_location =
  file_path :: string
  line_start :: int
  line_end :: int

record code_block =
  block_id :: string
  pattern_id :: string
  location :: source_location
  relative_path :: string
  source_code :: string
  language :: string
  category :: string
  repository_path :: string
  line_count :: int

record duplicate_group =
  group_id :: string
  dg_pattern_id :: string
  member_block_ids :: "string list"
  similarity_score :: real
  similarity_method :: string
  dg_category :: string
  dg_language :: string
  occurrence_count :: int
  total_lines :: int
  affected_files :: "string set"
  affected_repositories :: "string list"

record consolidation_suggestion =
  suggestion_id :: string
  duplicate_group_id :: string
  strategy :: string
  strategy_rationale :: string
  cs_impact_score :: real
  complexity :: string
  migration_risk :: string
  breaking_changes :: bool
  affected_files_count :: int
  affected_repositories_count :: int
  confidence :: real

record scan_metrics =
  total_code_blocks :: int
  total_duplicate_groups :: int
  exact_duplicates :: int
  structural_duplicates :: int
  semantic_duplicates :: int
  total_duplicated_lines :: int
  potential_loc_reduction :: int
  duplication_percentage :: real
  total_suggestions :: int
  quick_wins :: int
  high_priority_suggestions :: int

text \<open>
  The warning line written to the error stream by the \<^verbatim>\<open>except\<close> branch of the
  extractor: the index of the record, \<^verbatim>\<open>match.get('file_path', 'unknown')\<close> as the
  f-string renders it, and the exception.
\<close>

record diagnostic =
  diag_index :: nat
  diag_path :: string
  diag_error :: py_error

text \<open>
  What \<^verbatim>\<open>main\<close> dumps to the output stream, together with the warnings of stage 3.
\<close>

record pipeline_result =
  code_blocks :: "code_block list"
  duplicate_groups :: "duplicate_group list"
  suggestions :: "consolidation_suggestion list"
  metrics :: scan_metrics
  warnings :: "diagnostic list"

text \<open>
  What the file imports and does not define is a parameter of the model:
  \<^item> \<open>sha256_hexdigest\<close>: \<^verbatim>\<open>hashlib.sha256(s.encode()).hexdigest()\<close>, where \<^verbatim>\<open>encode\<close>
    raises \<^verbatim>\<open>UnicodeEncodeError\<close> on a string with a lone surrogate;
  \<^item> \<open>py_repr\<close>: the text an f-string inserts for a float, a list or a dictionary;
  \<^item> \<open>location_valid\<close>, \<open>block_valid\<close>, \<open>group_valid\<close>, \<open>suggestion_valid\<close>: what the
    constructors of the four model classes check beyond the specification's invariants;
    a constructor that does not accept its arguments raises;
  \<^item> \<open>content_hash\<close>: the derived attribute \<^verbatim>\<open>CodeBlock.content_hash\<close>;
  \<^item> \<open>group_impact_score\<close>: the derived attribute \<^verbatim>\<open>DuplicateGroup.impact_score\<close>;
  \<^item> \<open>serializable\<close>: whether \<^verbatim>\<open>model_dump\<close> and \<^verbatim>\<open>json.dump\<close> succeed on the result.
  The floating-point scores are the reals their literals denote; the code only compares
  them with literals and takes a minimum.
\<close>

record models =
  sha256_hexdigest :: "string \<Rightarrow> py_error + string"
  py_repr :: "json \<Rightarrow> string"
  location_valid :: "source_location \<Rightarrow> bool"
  block_valid :: "code_block \<Rightarrow> bool"
  group_valid :: "duplicate_group \<Rightarrow> bool"
  suggestion_valid :: "consolidation_suggestion \<Rightarrow> bool"
  content_hash :: "code_block \<Rightarrow> string"
  group_impact_score :: "duplicate_group \<Rightarrow> real"
  serializable :: "pipeline_result \<Rightarrow> bool"

text \<open>What \<^verbatim>\<open>f"{v}"\<close> inserts for a value.\<close>

fun py_str :: "models \<Rightarrow> json \<Rightarrow> string" where
  "py_str env (JStr s) = s"
| "py_str env (JInt i) = str_int i"
| "py_str env (JBool b) = (if b then ''True'' else ''False'')"
| "py_str env JNull = ''None''"
| "py_str env v = py_repr env v"

section \<open>Stage 3: extract_code_blocks\<close>

definition category_map :: "(string \<times> string) list" where
  "category_map =
     [(''object-manipulation'', ''utility''),
      (''array-map-filter'', ''utility''),
      (''string-manipulation'', ''utility''),
      (''type-checking'', ''utility''),
      (''validation'', ''validator''),
      (''express-route-handlers'', ''api_handler''),
      (''auth-checks'', ''auth_check''),
      (''error-responses'', ''error_handler''),
      (''request-validation'', ''validator''),
      (''prisma-operations'', ''database_operation''),
      (''query-builders'', ''database_operation''),
      (''connection-handling'', ''database_operation''),
      (''await-patterns'', ''async_pattern''),
      (''promise-chains'', ''async_pattern''),
      (''env-variables'', ''config_access''),
      (''config-objects'', ''config_access''),
      (''console-statements'', ''logger''),
      (''logger-patterns'', ''logger'')]"

text \<open>
  \<^verbatim>\<open>category_map.get(key, 'utility')\<close>. The lookup hashes the key: a list or a dictionary
  is unhashable and raises \<^verbatim>\<open>TypeError\<close>. All keys of the table are strings, so a key of
  another hashable kind is found nowhere.
\<close>

fun category_map_get :: "json \<Rightarrow> py_error + string" where
  "category_map_get (JStr s) =
     Inr (case map_of category_map s of None \<Rightarrow> ''utility'' | Some c \<Rightarrow> c)"
| "category_map_get (JArr xs) = Inl TypeError"
| "category_map_get (JObj items) = Inl TypeError"
| "category_map_get v = Inr ''utility''"

text \<open>
  Modelled from the spec: the constructors of \<^verbatim>\<open>SourceLocation\<close> and \<^verbatim>\<open>CodeBlock\<close>, which
  are not part of the source. An argument of another type than the field has (section 6
  gives the line numbers the type int and the other fields the type string) is the type
  mismatch of sections 4.1 and 7 and makes the constructor raise; so does a line count
  below 1, the invariant of section 3. The parameters \<open>location_valid\<close> and
  \<open>block_valid\<close> stand for whatever else the constructors check.
\<close>

fun as_str :: "json \<Rightarrow> string option" where
  "as_str (JStr s) = Some s"
| "as_str v = None"

fun as_int :: "json \<Rightarrow> int option" where
  "as_int (JInt i) = Some i"
| "as_int v = None"

definition source_location_new ::
  "models \<Rightarrow> json \<Rightarrow> json \<Rightarrow> json \<Rightarrow> py_error + source_location" where
  "source_location_new env fp ls le =
     (case as_str fp of None \<Rightarrow> Inl ValidationError | Some p \<Rightarrow>
     (case as_int ls of None \<Rightarrow> Inl ValidationError | Some s \<Rightarrow>
     (case as_int le of None \<Rightarrow> Inl ValidationError | Some e \<Rightarrow>
        (if location_valid env \<lparr>file_path = p, line_start = s, line_end = e\<rparr>
         then Inr \<lparr>file_path = p, line_start = s, line_end = e\<rparr>
         else Inl ValidationError))))"

definition code_block_new ::
  "models \<Rightarrow> string \<Rightarrow> json \<Rightarrow> source_location \<Rightarrow> json \<Rightarrow> json \<Rightarrow> string \<Rightarrow> string
     \<Rightarrow> json \<Rightarrow> number \<Rightarrow> py_error + code_block" where
  "code_block_new env bid rid loc relp src lang cat rp n =
     (case as_str rid of None \<Rightarrow> Inl ValidationError | Some pid \<Rightarrow>
     (case as_str relp of None \<Rightarrow> Inl ValidationError | Some rel \<Rightarrow>
     (case as_str src of None \<Rightarrow> Inl ValidationError | Some txt \<Rightarrow>
     (case as_str rp of None \<Rightarrow> Inl ValidationError | Some repo_path \<Rightarrow>
     (case n of
        NFloat x \<Rightarrow> Inl ValidationError
      | NInt count \<Rightarrow>
          (if count < 1 then Inl ValidationError
           else
             (let block =
                \<lparr>block_id = bid, pattern_id = pid, location = loc, relative_path = rel,
                 source_code = txt, language = lang, category = cat,
                 repository_path = repo_path, line_count = count\<rparr>
              in if block_valid env block then Inr block else Inl ValidationError)))))))"

text \<open>
  The body of the \<^verbatim>\<open>try\<close> block for one element of \<^verbatim>\<open>pattern_matches\<close>, in the
  evaluation order of the source: the block id reads \<^verbatim>\<open>file_path\<close> then \<^verbatim>\<open>line_start\<close>
  and hashes their rendering; the category lookup reads \<^verbatim>\<open>rule_id\<close>; the keyword
  arguments of \<^verbatim>\<open>CodeBlock\<close> are evaluated from left to right (the location is
  constructed before \<^verbatim>\<open>repository_info['path']\<close> is read and before the line count is
  computed); the \<^verbatim>\<open>CodeBlock\<close> constructor runs last.
\<close>

definition extract_block :: "models \<Rightarrow> json \<Rightarrow> json \<Rightarrow> py_error + code_block" where
  "extract_block env repo match =
     and_then (getitem match ''file_path'') (\<lambda>fp.
     and_then (getitem match ''line_start'') (\<lambda>ls.
     and_then (sha256_hexdigest env (py_str env fp @ '':'' @ py_str env ls)) (\<lambda>digest.
     and_then (getitem match ''rule_id'') (\<lambda>rid.
     and_then (category_map_get rid) (\<lambda>cat.
     and_then (get_default match ''line_end'' ls) (\<lambda>le.
     and_then (source_location_new env fp ls le) (\<lambda>loc.
     and_then (get_default match ''matched_text'' (JStr [])) (\<lambda>txt.
     and_then (getitem repo ''path'') (\<lambda>rp.
     and_then (sub_plus_one le ls) (\<lambda>n.
       code_block_new env (''cb_'' @ take 12 digest) rid loc fp txt
         ''javascript'' cat rp n))))))))))"

text \<open>
  One iteration of \<^verbatim>\<open>for i, match in enumerate(pattern_matches)\<close>; the state is the list
  \<^verbatim>\<open>blocks\<close> and what has been written to the error stream. The \<^verbatim>\<open>except\<close> branch calls
  \<^verbatim>\<open>match.get\<close> outside any \<^verbatim>\<open>try\<close>: on an element that is not a dictionary it raises
  \<^verbatim>\<open>AttributeError\<close>, which ends the loop and the function.
\<close>

definition extract_step ::
  "models \<Rightarrow> json \<Rightarrow> code_block list \<times> diagnostic list \<Rightarrow> nat \<times> json
     \<Rightarrow> py_error + code_block list \<times> diagnostic list" where
  "extract_step env repo st im =
     (case extract_block env repo (snd im) of
        Inr block \<Rightarrow> Inr (fst st @ [block], snd st)
      | Inl e \<Rightarrow>
          and_then (get_default (snd im) ''file_path'' (JStr ''unknown'')) (\<lambda>p.
            Inr (fst st,
                 snd st @ [\<lparr>diag_index = fst im, diag_path = py_str env p,
                            diag_error = e\<rparr>])))"

fun extract_loop ::
  "models \<Rightarrow> json \<Rightarrow> code_block list \<times> diagnostic list \<Rightarrow> (nat \<times> json) list
     \<Rightarrow> py_error + code_block list \<times> diagnostic list" where
  "extract_loop env repo st [] = Inr st"
| "extract_loop env repo st (im # rest) =
     and_then (extract_step env repo st im) (\<lambda>st'. extract_loop env repo st' rest)"

definition extract_code_blocks ::
  "models \<Rightarrow> json \<Rightarrow> json \<Rightarrow> py_error + code_block list \<times> diagnostic list" where
  "extract_code_blocks env pattern_matches repo =
     and_then (py_iter pattern_matches) (\<lambda>matches.
       extract_loop env repo ([], []) (List.enumerate 0 matches))"

section \<open>Stage 5: group_duplicates\<close>

text \<open>
  \<^verbatim>\<open>hash_groups\<close> is a Python dictionary, which keeps its keys in insertion order: an
  association list with distinct keys. One iteration of the first loop appends the block
  to the bucket of its hash, creating the bucket at the end when the hash is new.
\<close>

fun bucket_append ::
  "(string \<times> code_block list) list \<Rightarrow> string \<Rightarrow> code_block \<Rightarrow> (string \<times> code_block list) list" where
  "bucket_append [] h b = [(h, [b])]"
| "bucket_append ((k, bs) # rest) h b =
     (if k = h then (k, bs @ [b]) # rest else (k, bs) # bucket_append rest h b)"

definition hash_groups :: "models \<Rightarrow> code_block list \<Rightarrow> (string \<times> code_block list) list" where
  "hash_groups env blocks = foldl (\<lambda>hg b. bucket_append hg (content_hash env b) b) [] blocks"

text \<open>
  The \<^verbatim>\<open>DuplicateGroup\<close> built from one bucket. \<^verbatim>\<open>list(set(...))\<close> has no specified
  order, so \<open>affected_files\<close> is the set itself; the code only takes its length.
  The source indexes \<^verbatim>\<open>group_blocks[0]\<close> only under the guard
  \<^verbatim>\<open>len(group_blocks) >= 2\<close>.
\<close>

definition make_group :: "string \<Rightarrow> code_block list \<Rightarrow> duplicate_group" where
  "make_group h group_blocks =
     \<lparr>group_id = ''dg_'' @ take 12 h,
      dg_pattern_id = pattern_id (group_blocks ! 0),
      member_block_ids = map block_id group_blocks,
      similarity_score = 1.0,
      similarity_method = ''exact_match'',
      dg_category = category (group_blocks ! 0),
      dg_language = language (group_blocks ! 0),
      occurrence_count = int (length group_blocks),
      total_lines = sum_list (map line_count group_blocks),
      affected_files = set (map (\<lambda>b. file_path (location b)) group_blocks),
      affected_repositories = [repository_path (group_blocks ! 0)]\<rparr>"

definition group_step ::
  "duplicate_group list \<Rightarrow> string \<times> code_block list \<Rightarrow> duplicate_group list" where
  "group_step groups hb =
     (if length (snd hb) \<ge> 2 then groups @ [make_group (fst hb) (snd hb)] else groups)"

definition group_duplicates :: "models \<Rightarrow> code_block list \<Rightarrow> duplicate_group list" where
  "group_duplicates env blocks = foldl group_step [] (hash_groups env blocks)"

section \<open>Stage 6: generate_suggestions\<close>

definition make_suggestion :: "models \<Rightarrow> duplicate_group \<Rightarrow> consolidation_suggestion" where
  "make_suggestion env g =
     (let strat =
            (if occurrence_count g \<le> 3 then ''local_util''
             else if occurrence_count g \<le> 10 then ''shared_package''
             else ''mcp_server'')
      in \<lparr>suggestion_id = ''cs_'' @ group_id g,
          duplicate_group_id = group_id g,
          strategy = strat,
          strategy_rationale =
            ''Found '' @ str_int (occurrence_count g) @ '' occurrences in ''
              @ str_int (int (card (affected_files g))) @ '' files'',
          cs_impact_score = min (group_impact_score env g) 100.0,
          complexity = ''simple'',
          migration_risk = ''low'',
          breaking_changes = False,
          affected_files_count = int (card (affected_files g)),
          affected_repositories_count = int (length (affected_repositories g)),
          confidence = (if similarity_score g \<ge> 0.95 then 0.9 else 0.7)\<rparr>)"

definition generate_suggestions ::
  "models \<Rightarrow> duplicate_group list \<Rightarrow> consolidation_suggestion list" where
  "generate_suggestions env groups =
     foldl (\<lambda>suggs g. suggs @ [make_suggestion env g]) [] groups"


section \<open>Stage 7 and main\<close>

text \<open>
  \<^verbatim>\<open>sum(g.total_lines - g.total_lines // g.occurrence_count for g in groups)\<close>, from left
  to right, starting at 0; the division raises on a group whose count is 0.
\<close>

fun loc_reduction_sum :: "int \<Rightarrow> duplicate_group list \<Rightarrow> py_error + int" where
  "loc_reduction_sum acc [] = Inr acc"
| "loc_reduction_sum acc (g # gs) =
     (case floordiv (total_lines g) (occurrence_count g) of
        Inl e \<Rightarrow> Inl e
      | Inr q \<Rightarrow> loc_reduction_sum (acc + (total_lines g - q)) gs)"

definition calculate_metrics ::
  "code_block list \<Rightarrow> duplicate_group list \<Rightarrow> consolidation_suggestion list
     \<Rightarrow> py_error + scan_metrics" where
  "calculate_metrics blocks groups suggs =
     (case loc_reduction_sum 0 groups of
        Inl e \<Rightarrow> Inl e
      | Inr reduction \<Rightarrow>
          Inr \<lparr>total_code_blocks = int (length blocks),
               total_duplicate_groups = int (length groups),
               exact_duplicates =
                 int (length (filter (\<lambda>g. similarity_method g = ''exact'') groups)),
               structural_duplicates = 0,
               semantic_duplicates = 0,
               total_duplicated_lines = sum_list (map total_lines groups),
               potential_loc_reduction = reduction,
               duplication_percentage = 0.0,
               total_suggestions = int (length suggs),
               quick_wins =
                 int (length (filter (\<lambda>s. complexity s = ''trivial'') suggs)),
               high_priority_suggestions =
                 int (length (filter (\<lambda>s. cs_impact_score s \<ge> 75) suggs))\<rparr>)"

text \<open>
  The body of the outer \<^verbatim>\<open>try\<close> of \<^verbatim>\<open>main\<close>, applied to the parsed input document.
  \<open>Inl\<close> is the exception that reaches the outer \<^verbatim>\<open>except\<close> (exit status 1): a top-level
  key that is missing, an input that is not a dictionary, a failure of the extractor, a
  constructor of \<^verbatim>\<open>DuplicateGroup\<close> or \<^verbatim>\<open>ConsolidationSuggestion\<close> that rejects its
  arguments (the first rejection ends the stage, so the stage fails when some group or
  suggestion is rejected), a division by zero, or a failure to serialise the result.
\<close>

definition main :: "models \<Rightarrow> json \<Rightarrow> py_error + pipeline_result" where
  "main env input_data =
     and_then (getitem input_data ''repository_info'') (\<lambda>repo.
     and_then (getitem input_data ''pattern_matches'') (\<lambda>matches.
     and_then (extract_code_blocks env matches repo) (\<lambda>ex.
       (let blocks = fst ex;
            groups = group_duplicates env blocks
        in if \<not> list_all (group_valid env) groups then Inl ValidationError
           else
             (let suggs = generate_suggestions env groups
              in if \<not> list_all (suggestion_valid env) suggs then Inl ValidationError
                 else
                   and_then (calculate_metrics blocks groups suggs) (\<lambda>m.
                     (let result =
                        \<lparr>code_blocks = blocks, duplicate_groups = groups,
                         suggestions = suggs, metrics = m, warnings = snd ex\<rparr>
                      in if serializable env result then Inr result
                         else Inl SerializationError)))))))"

section \<open>Auxiliary definitions and example inputs\<close>

text \<open>The value stored under a key of a dictionary, and whether a value is a dictionary.\<close>

fun obj_get :: "json \<Rightarrow> string \<Rightarrow> json option" where
  "obj_get (JObj items) k = map_of items k"
| "obj_get v k = None"

fun is_object :: "json \<Rightarrow> bool" where
  "is_object (JObj items) = True"
| "is_object v = False"

text \<open>The bucket stored under a key of \<^verbatim>\<open>hash_groups\<close>, empty when the key is absent.\<close>

definition bucket_of :: "(string \<times> code_block list) list \<Rightarrow> string \<Rightarrow> code_block list" where
  "bucket_of acc k = (case map_of acc k of None \<Rightarrow> [] | Some bs \<Rightarrow> bs)"

text \<open>
  The block of a record whose construction succeeds, and the warning of a dictionary
  whose construction raises.
\<close>

definition block_of :: "models \<Rightarrow> json \<Rightarrow> json \<Rightarrow> code_block option" where
  "block_of env repo m =
     (case extract_block env repo m of Inl e \<Rightarrow> None | Inr b \<Rightarrow> Some b)"

definition warning_of :: "models \<Rightarrow> json \<Rightarrow> nat \<times> json \<Rightarrow> diagnostic option" where
  "warning_of env repo im =
     (case extract_block env repo (snd im) of
        Inl e \<Rightarrow>
          Some \<lparr>diag_index = fst im,
                diag_path =
                  py_str env (case obj_get (snd im) ''file_path'' of
                                None \<Rightarrow> JStr ''unknown'' | Some v \<Rightarrow> v),
                diag_error = e\<rparr>
      | Inr b \<Rightarrow> None)"


text \<open>
  The strategy table of the specification (section 4.3), row by row; the first row whose
  range contains the count gives the strategy.
\<close>

definition strategy_rows :: "((int \<Rightarrow> bool) \<times> string) list" where
  "strategy_rows =
     [(\<lambda>n. n \<le> 3, ''local_util''),
      (\<lambda>n. 4 \<le> n \<and> n \<le> 10, ''shared_package''),
      (\<lambda>n. 10 < n, ''mcp_server'')]"

definition spec_strategy :: "int \<Rightarrow> string option" where
  "spec_strategy n = map_option snd (find (\<lambda>row. fst row n) strategy_rows)"

text \<open>
  An instance of the external parameters, used to run the pipeline on examples: the
  constructors check nothing beyond the specification, serialisation succeeds, and the
  two hash functions return the hashed text itself (so that equal hashes mean equal
  texts, as for a hash without collisions).
\<close>

definition stub_models :: models where
  "stub_models =
     \<lparr>sha256_hexdigest = (\<lambda>s. Inr s),
      py_repr = (\<lambda>v. ''...''),
      location_valid = (\<lambda>l. True),
      block_valid = (\<lambda>b. True),
      group_valid = (\<lambda>g. True),
      suggestion_valid = (\<lambda>s. True),
      content_hash = (\<lambda>b. source_code b),
      group_impact_score = (\<lambda>g. 50),
      serializable = (\<lambda>r. True)\<rparr>"

text \<open>
  The end-to-end scenario: two matches with the same text in \<^verbatim>\<open>a.js\<close> (line 10) and
  \<^verbatim>\<open>b.js\<close> (line 22), and one with another text in \<^verbatim>\<open>c.js\<close>, whose rule is not in
  the category table.
\<close>

definition match_a :: json where
  "match_a = JObj
     [(''rule_id'', JStr ''validation''), (''file_path'', JStr ''a.js''),
      (''line_start'', JInt 10), (''matched_text'', JStr ''if (x) return null;'')]"

definition match_b :: json where
  "match_b = JObj
     [(''rule_id'', JStr ''validation''), (''file_path'', JStr ''b.js''),
      (''line_start'', JInt 22), (''matched_text'', JStr ''if (x) return null;'')]"

definition match_c :: json where
  "match_c = JObj
     [(''rule_id'', JStr ''custom-rule''), (''file_path'', JStr ''c.js''),
      (''line_start'', JInt 1), (''line_end'', JInt 3),
      (''matched_text'', JStr ''const y = 1;'')]"

definition scenario_repo :: json where
  "scenario_repo = JObj [(''path'', JStr ''/repo'')]"

definition scenario_input :: json where
  "scenario_input = JObj
     [(''repository_info'', scenario_repo),
      (''pattern_matches'', JArr [match_a, match_b, match_c])]"

definition block_a :: code_block where
  "block_a =
     \<lparr>block_id = ''cb_a.js:10'', pattern_id = ''validation'',
      location = \<lparr>file_path = ''a.js'', line_start = 10, line_end = 10\<rparr>,
      relative_path = ''a.js'', source_code = ''if (x) return null;'',
      language = ''javascript'', category = ''validator'',
      repository_path = ''/repo'', line_count = 1\<rparr>"

definition block_b :: code_block where
  "block_b =
     \<lparr>block_id = ''cb_b.js:22'', pattern_id = ''validation'',
      location = \<lparr>file_path = ''b.js'', line_start = 22, line_end = 22\<rparr>,
      relative_path = ''b.js'', source_code = ''if (x) return null;'',
      language = ''javascript'', category = ''validator'',
      repository_path = ''/repo'', line_count = 1\<rparr>"

definition block_c :: code_block where
  "block_c =
     \<lparr>block_id = ''cb_c.js:1'', pattern_id = ''custom-rule'',
      location = \<lparr>file_path = ''c.js'', line_start = 1, line_end = 3\<rparr>,
      relative_path = ''c.js'', source_code = ''const y = 1;'',
      language = ''javascript'', category = ''utility'',
      repository_path = ''/repo'', line_count = 3\<rparr>"

definition group_ab :: duplicate_group where
  "group_ab =
     \<lparr>group_id = ''dg_if (x) retur'', dg_pattern_id = ''validation'',
      member_block_ids = [''cb_a.js:10'', ''cb_b.js:22''],
      similarity_score = 1, similarity_method = ''exact_match'',
      dg_category = ''validator'', dg_language = ''javascript'',
      occurrence_count = 2, total_lines = 2,
      affected_files = {''a.js'', ''b.js''},
      affected_repositories = [''/repo'']\<rparr>"






text \<open>
  Whether a value can be a dictionary key, which a lookup with \<^verbatim>\<open>dict.get\<close> requires
  of its argument: lists and dictionaries cannot be hashed.
\<close>

fun hashable :: "json \<Rightarrow> bool" where
  "hashable (JArr xs) = False"
| "hashable (JObj items) = False"
| "hashable v = True"

text \<open>A second record at the location of \<open>match_a\<close>, with another text and rule.\<close>

definition match_a2 :: json where
  "match_a2 = JObj
     [(''rule_id'', JStr ''custom-rule''), (''file_path'', JStr ''a.js''),
      (''line_start'', JInt 10), (''line_end'', JInt 12),
      (''matched_text'', JStr ''return 0;'')]"

section \<open>Loops as maps and filters\<close>

lemma foldl_snoc_map: "foldl (\<lambda>acc x. acc @ [f x]) acc xs = acc @ map f xs"
  by (induction xs arbitrary: acc) simp_all

lemma generate_suggestions_map:
  "generate_suggestions env gs = map (make_suggestion env) gs"
  by (simp add: generate_suggestions_def foldl_snoc_map)

lemma foldl_group_step:
  "foldl group_step acc hg =
     acc @ map (\<lambda>hb. make_group (fst hb) (snd hb)) (filter (\<lambda>hb. 2 \<le> length (snd hb)) hg)"
  by (induction hg arbitrary: acc) (simp_all add: group_step_def)

lemma group_duplicates_buckets:
  "group_duplicates env blocks =
     map (\<lambda>hb. make_group (fst hb) (snd hb))
       (filter (\<lambda>hb. 2 \<le> length (snd hb)) (hash_groups env blocks))"
  by (simp add: group_duplicates_def foldl_group_step)

subsection \<open>The buckets of hash_groups\<close>

lemma bucket_append_keys:
  "map fst (bucket_append acc h b) =
     (if h \<in> fst ` set acc then map fst acc else map fst acc @ [h])"
  by (induction acc h b rule: bucket_append.induct) auto

lemma bucket_append_distinct:
  "distinct (map fst acc) \<Longrightarrow> distinct (map fst (bucket_append acc h b))"
  by (simp add: bucket_append_keys)

lemma bucket_append_lookup:
  "map_of (bucket_append acc h b) k =
     (if k = h then Some (bucket_of acc h @ [b]) else map_of acc k)"
  unfolding bucket_of_def
  by (induction acc h b rule: bucket_append.induct) auto

lemma foldl_bucket_distinct:
  "distinct (map fst acc) \<Longrightarrow>
   distinct (map fst (foldl (\<lambda>hg b. bucket_append hg (f b) b) acc bs))"
  by (induction bs arbitrary: acc) (simp_all add: bucket_append_distinct)

lemma foldl_bucket_lookup:
  "map_of (foldl (\<lambda>hg b. bucket_append hg (f b) b) acc bs) k =
     (if map_of acc k = None \<and> filter (\<lambda>b. f b = k) bs = [] then None
      else Some (bucket_of acc k @ filter (\<lambda>b. f b = k) bs))"
proof (induction bs arbitrary: acc)
  case Nil
  show ?case by (auto simp: bucket_of_def)
next
  case (Cons b bs)
  show ?case
    by (simp add: Cons.IH bucket_append_lookup bucket_of_def)
qed

lemma hash_groups_distinct: "distinct (map fst (hash_groups env blocks))"
  by (simp add: hash_groups_def foldl_bucket_distinct)

lemma hash_groups_lookup:
  "map_of (hash_groups env blocks) h =
     (if filter (\<lambda>b. content_hash env b = h) blocks = [] then None
      else Some (filter (\<lambda>b. content_hash env b = h) blocks))"
  by (simp add: hash_groups_def foldl_bucket_lookup bucket_of_def)

text \<open>A bucket holds exactly the blocks of its hash, in input order, and is never empty.\<close>

lemma hash_groups_member:
  "(h, bs) \<in> set (hash_groups env blocks) \<longleftrightarrow>
     bs \<noteq> [] \<and> bs = filter (\<lambda>b. content_hash env b = h) blocks"
proof -
  have "(h, bs) \<in> set (hash_groups env blocks)
          \<longleftrightarrow> map_of (hash_groups env blocks) h = Some bs"
    using hash_groups_distinct by (metis map_of_eq_Some_iff)
  then show ?thesis by (auto simp: hash_groups_lookup)
qed

text \<open>The number of buckets with two or more blocks is the number of such hashes.\<close>

lemma big_buckets_card:
  "length (filter (\<lambda>hb. 2 \<le> length (snd hb)) (hash_groups env blocks)) =
     card {h. 2 \<le> length (filter (\<lambda>b. content_hash env b = h) blocks)}"
proof -
  let ?big = "filter (\<lambda>hb. 2 \<le> length (snd hb)) (hash_groups env blocks)"
  have d: "distinct (map fst ?big)"
    using hash_groups_distinct [of env blocks] by (rule distinct_map_filter)
  have "fst ` set ?big = {h. 2 \<le> length (filter (\<lambda>b. content_hash env b = h) blocks)}"
  proof (intro set_eqI iffI)
    fix h assume "h \<in> fst ` set ?big"
    then obtain bs where "(h, bs) \<in> set (hash_groups env blocks)" "2 \<le> length bs"
      by auto
    then show "h \<in> {h. 2 \<le> length (filter (\<lambda>b. content_hash env b = h) blocks)}"
      by (simp add: hash_groups_member)
  next
    fix h assume h: "h \<in> {h. 2 \<le> length (filter (\<lambda>b. content_hash env b = h) blocks)}"
    let ?bs = "filter (\<lambda>b. content_hash env b = h) blocks"
    from h have "?bs \<noteq> []" by auto
    then have "(h, ?bs) \<in> set (hash_groups env blocks)"
      by (simp add: hash_groups_member)
    with h have "(h, ?bs) \<in> set ?big" by simp
    then show "h \<in> fst ` set ?big" by (rule image_eqI [rotated]) simp
  qed
  then have "card {h. 2 \<le> length (filter (\<lambda>b. content_hash env b = h) blocks)}
               = card (set (map fst ?big))"
    by simp
  also have "\<dots> = length (map fst ?big)"
    using d by (rule distinct_card)
  finally show ?thesis by simp
qed

section \<open>The extractor, record by record\<close>

lemma and_then_Inr: "and_then x f = Inr y \<longleftrightarrow> (\<exists>a. x = Inr a \<and> f a = Inr y)"
  by (cases x) simp_all

lemma getitem_Inr: "getitem m k = Inr v \<longleftrightarrow> obj_get m k = Some v"
  by (cases m) (simp_all split: option.splits)

lemma getitem_not_object: "\<not> is_object m \<Longrightarrow> getitem m k = Inl TypeError"
  by (cases m) simp_all

lemma get_default_Inr:
  "get_default m k d = Inr v \<longleftrightarrow>
     is_object m \<and> v = (case obj_get m k of None \<Rightarrow> d | Some x \<Rightarrow> x)"
  by (cases m) auto

lemma get_default_not_object: "\<not> is_object m \<Longrightarrow> get_default m k d = Inl AttributeError"
  by (cases m) simp_all


lemma as_str_Some: "as_str v = Some s \<longleftrightarrow> v = JStr s"
  by (cases v) simp_all

lemma as_int_Some: "as_int v = Some i \<longleftrightarrow> v = JInt i"
  by (cases v) simp_all

lemma source_location_new_Inr:
  "source_location_new env fp ls le = Inr loc \<longleftrightarrow>
     (\<exists>p s e. fp = JStr p \<and> ls = JInt s \<and> le = JInt e \<and>
        loc = \<lparr>file_path = p, line_start = s, line_end = e\<rparr> \<and> location_valid env loc)"
  by (auto simp: source_location_new_def as_str_Some as_int_Some split: option.splits)

lemma code_block_new_Inr:
  "code_block_new env bid rid loc relp srcv lang cat rp n = Inr b \<longleftrightarrow>
     (\<exists>pid rel src repo_path count.
        rid = JStr pid \<and> relp = JStr rel \<and> srcv = JStr src \<and> rp = JStr repo_path \<and>
        n = NInt count \<and> 1 \<le> count \<and>
        b = \<lparr>block_id = bid, pattern_id = pid, location = loc, relative_path = rel,
             source_code = src, language = lang, category = cat,
             repository_path = repo_path, line_count = count\<rparr> \<and>
        block_valid env b)"
  by (auto simp: code_block_new_def as_str_Some Let_def split: option.splits number.splits)

lemma sub_plus_one_ints: "sub_plus_one (JInt e) (JInt s) = Inr (NInt (e - s + 1))"
  by (simp add: sub_plus_one_def)




lemma and_then_InrE:
  assumes "and_then x f = Inr y"
  obtains a where "x = Inr a" and "f a = Inr y"
  using assms by (cases x) simp_all

lemma extract_block_fwd:
  assumes "extract_block env repo m = Inr b"
  shows "\<exists>fp s e rid src rp digest.
        obj_get m ''file_path'' = Some (JStr fp) \<and>
        obj_get m ''line_start'' = Some (JInt s) \<and>
        obj_get m ''rule_id'' = Some (JStr rid) \<and>
        (case obj_get m ''line_end'' of None \<Rightarrow> JInt s | Some v \<Rightarrow> v) = JInt e \<and>
        (case obj_get m ''matched_text'' of None \<Rightarrow> JStr [] | Some v \<Rightarrow> v) = JStr src \<and>
        obj_get repo ''path'' = Some (JStr rp) \<and>
        sha256_hexdigest env (fp @ '':'' @ str_int s) = Inr digest \<and>
        location_valid env \<lparr>file_path = fp, line_start = s, line_end = e\<rparr> \<and>
        s \<le> e \<and>
        b = \<lparr>block_id = ''cb_'' @ take 12 digest,
             pattern_id = rid,
             location = \<lparr>file_path = fp, line_start = s, line_end = e\<rparr>,
             relative_path = fp,
             source_code = src,
             language = ''javascript'',
             category = (case map_of category_map rid of None \<Rightarrow> ''utility'' | Some c \<Rightarrow> c),
             repository_path = rp,
             line_count = e - s + 1\<rparr> \<and>
        block_valid env b"
  using assms unfolding extract_block_def
  apply (elim and_then_InrE)
  apply (simp only: getitem_Inr get_default_Inr source_location_new_Inr code_block_new_Inr)
  apply (elim exE conjE)
  apply hypsubst
  apply (simp add: sub_plus_one_ints)
  done



lemma get_default_object:
  "is_object m \<Longrightarrow> get_default m k d = Inr (case obj_get m k of None \<Rightarrow> d | Some x \<Rightarrow> x)"
  by (cases m) simp_all

lemma extract_block_not_object: "\<not> is_object m \<Longrightarrow> extract_block env repo m = Inl TypeError"
  by (simp add: extract_block_def getitem_not_object)

lemma extract_step_object:
  assumes "is_object m"
  shows "extract_step env repo st (i, m) =
      Inr (fst st @ (case block_of env repo m of None \<Rightarrow> [] | Some b \<Rightarrow> [b]),
           snd st @ (case warning_of env repo (i, m) of None \<Rightarrow> [] | Some w \<Rightarrow> [w]))"
  by (cases "extract_block env repo m")
    (simp_all add: extract_step_def block_of_def warning_of_def get_default_object [OF assms])

lemma extract_step_not_object:
  "\<not> is_object m \<Longrightarrow> extract_step env repo st (i, m) = Inl AttributeError"
  by (simp add: extract_step_def extract_block_not_object get_default_not_object)

lemma extract_loop_objects:
  "list_all is_object ms \<Longrightarrow>
   extract_loop env repo st (List.enumerate n ms) =
     Inr (fst st @ List.map_filter (block_of env repo) ms,
          snd st @ List.map_filter (warning_of env repo) (List.enumerate n ms))"
proof (induction ms arbitrary: st n)
  case Nil
  show ?case by (simp add: List.map_filter_simps)
next
  case (Cons m ms)
  from Cons.prems have m: "is_object m" and ms: "list_all is_object ms" by simp_all
  show ?case
    by (simp add: extract_step_object [OF m] Cons.IH [OF ms] List.map_filter_simps
        split: option.splits)
qed

lemma extract_loop_not_objects:
  "\<not> list_all is_object ms \<Longrightarrow>
   extract_loop env repo st (List.enumerate n ms) = Inl AttributeError"
proof (induction ms arbitrary: st n)
  case Nil
  then show ?case by simp
next
  case (Cons m ms)
  show ?case
  proof (cases "is_object m")
    case True
    with Cons.prems have "\<not> list_all is_object ms" by simp
    then show ?thesis
      by (simp add: extract_step_object [OF True] Cons.IH)
  next
    case False
    then show ?thesis by (simp add: extract_step_not_object)
  qed
qed


text \<open>Whatever is iterated over, a block in the result was built from one of the elements.\<close>

lemma extracted_block_origin:
  assumes "extract_code_blocks env pm repo = Inr (bs, ws)" and "b \<in> set bs"
  shows "\<exists>ms. py_iter pm = Inr ms \<and> (\<exists>m \<in> set ms. extract_block env repo m = Inr b)"
proof -
  from assms(1) obtain ms where it: "py_iter pm = Inr ms"
    and loop: "extract_loop env repo ([], []) (List.enumerate 0 ms) = Inr (bs, ws)"
    unfolding extract_code_blocks_def by (elim and_then_InrE)
  have obj: "list_all is_object ms"
    using loop extract_loop_not_objects [of ms env repo "([], [])" 0] by auto
  from loop have "bs = List.map_filter (block_of env repo) ms"
    by (simp add: extract_loop_objects [OF obj])
  with assms(2) have "\<exists>m \<in> set ms. extract_block env repo m = Inr b"
    by (auto simp: List.map_filter_def block_of_def split: sum.splits)
  with it show ?thesis by (intro exI [of _ ms] conjI)
qed

section \<open>The end-to-end scenario, evaluated\<close>

lemma scenario_blocks:
  "extract_code_blocks stub_models (JArr [match_a, match_b, match_c]) scenario_repo
     = Inr ([block_a, block_b, block_c], [])"
  by (simp add: extract_code_blocks_def extract_step_def extract_block_def
      source_location_new_def code_block_new_def sub_plus_one_def stub_models_def
      match_a_def match_b_def match_c_def scenario_repo_def category_map_def
      block_a_def block_b_def block_c_def str_int_def)


lemma scenario_hash_groups:
  "hash_groups stub_models [block_a, block_b, block_c] =
     [(''if (x) return null;'', [block_a, block_b]), (''const y = 1;'', [block_c])]"
  by (simp add: hash_groups_def stub_models_def block_a_def block_b_def block_c_def)

lemma make_group_ab: "make_group ''if (x) return null;'' [block_a, block_b] = group_ab"
  by (simp add: make_group_def block_a_def block_b_def group_ab_def)

lemma scenario_groups:
  "group_duplicates stub_models [block_a, block_b, block_c] = [group_ab]"
  by (simp add: group_duplicates_def group_step_def scenario_hash_groups make_group_ab)

section \<open>Claims about the grouper\<close>

text \<open>
  Claim C3. For every list of extracted blocks, every \<^verbatim>\<open>DuplicateGroup\<close> the grouper
  emits has \<open>occurrence_count\<close> equal to the number of its member block ids, and that
  number is at least 2; its members are the blocks of one content hash. A bucket with a
  single block produces no group: there are exactly as many groups as there are content
  hashes carried by two or more blocks.
\<close>

theorem groups_have_two_members:
  "(\<forall>g \<in> set (group_duplicates env blocks).
      occurrence_count g = int (length (member_block_ids g)) \<and> 2 \<le> occurrence_count g \<and>
      (\<exists>h. member_block_ids g = map block_id (filter (\<lambda>b. content_hash env b = h) blocks)))
   \<and> length (group_duplicates env blocks) =
       card {h. 2 \<le> length (filter (\<lambda>b. content_hash env b = h) blocks)}"
proof (intro conjI ballI)
  fix g assume "g \<in> set (group_duplicates env blocks)"
  then obtain h bs where hb: "(h, bs) \<in> set (hash_groups env blocks)" "2 \<le> length bs"
    and g: "g = make_group h bs"
    by (auto simp: group_duplicates_buckets)
  from hb(1) have bs: "bs = filter (\<lambda>b. content_hash env b = h) blocks"
    by (simp add: hash_groups_member)
  show "occurrence_count g = int (length (member_block_ids g))"
    by (simp add: g make_group_def)
  show "2 \<le> occurrence_count g"
    using hb(2) by (simp add: g make_group_def)
  show "\<exists>h. member_block_ids g = map block_id (filter (\<lambda>b. content_hash env b = h) blocks)"
    using bs by (auto simp: g make_group_def)
next
  show "length (group_duplicates env blocks) =
       card {h. 2 \<le> length (filter (\<lambda>b. content_hash env b = h) blocks)}"
    by (simp only: group_duplicates_buckets length_map big_buckets_card)
qed



theorem groups_have_two_members_witness:
  "group_duplicates stub_models [block_a, block_b, block_c] = [group_ab]
   \<and> occurrence_count group_ab = int (length (member_block_ids group_ab))
   \<and> 2 \<le> occurrence_count group_ab
   \<and> length (group_duplicates stub_models [block_a, block_b, block_c]) = 1"
proof -
  note inst = groups_have_two_members [of stub_models "[block_a, block_b, block_c]"]
  from inst have "\<forall>g \<in> set [group_ab].
      occurrence_count g = int (length (member_block_ids g)) \<and> 2 \<le> occurrence_count g"
    unfolding scenario_groups by blast
  then show ?thesis by (simp add: scenario_groups)
qed

section \<open>Claims about the suggestion generator\<close>

lemma strategy_make_suggestion:
  "strategy (make_suggestion env g) =
     (if occurrence_count g \<le> 3 then ''local_util''
      else if occurrence_count g \<le> 10 then ''shared_package'' else ''mcp_server'')"
  by (simp add: make_suggestion_def Let_def)

text \<open>
  Claim C2. The strategy of a suggestion is a function of the group's
  \<open>occurrence_count\<close> alone, given by the ordered thresholds of the specification's
  table: at most 3 gives \<^verbatim>\<open>local_util\<close>, 4 to 10 gives \<^verbatim>\<open>shared_package\<close>, more than
  10 gives \<^verbatim>\<open>mcp_server\<close>. Counts 3 and 4 get different strategies, and so do counts
  10 and 11.
\<close>

theorem strategy_by_thresholds:
  "map (\<lambda>s. Some (strategy s)) (generate_suggestions env gs)
     = map (\<lambda>g. spec_strategy (occurrence_count g)) gs
   \<and> (occurrence_count g3 = 3 \<and> occurrence_count g4 = 4 \<longrightarrow>
        strategy (make_suggestion env g3) \<noteq> strategy (make_suggestion env g4))
   \<and> (occurrence_count g10 = 10 \<and> occurrence_count g11 = 11 \<longrightarrow>
        strategy (make_suggestion env g10) \<noteq> strategy (make_suggestion env g11))"
proof (intro conjI impI)
  have "Some (strategy (make_suggestion env g)) = spec_strategy (occurrence_count g)" for g
    by (simp add: strategy_make_suggestion spec_strategy_def strategy_rows_def)
  then show "map (\<lambda>s. Some (strategy s)) (generate_suggestions env gs)
     = map (\<lambda>g. spec_strategy (occurrence_count g)) gs"
    by (simp add: generate_suggestions_map)
next
  assume "occurrence_count g3 = 3 \<and> occurrence_count g4 = 4"
  then show "strategy (make_suggestion env g3) \<noteq> strategy (make_suggestion env g4)"
    by (simp add: strategy_make_suggestion)
next
  assume "occurrence_count g10 = 10 \<and> occurrence_count g11 = 11"
  then show "strategy (make_suggestion env g10) \<noteq> strategy (make_suggestion env g11)"
    by (simp add: strategy_make_suggestion)
qed

theorem strategy_by_thresholds_witness:
  "map strategy (generate_suggestions stub_models [group_ab]) = [''local_util'']
   \<and> strategy (make_suggestion stub_models (group_ab\<lparr>occurrence_count := 3\<rparr>)) = ''local_util''
   \<and> strategy (make_suggestion stub_models (group_ab\<lparr>occurrence_count := 4\<rparr>)) = ''shared_package''
   \<and> strategy (make_suggestion stub_models (group_ab\<lparr>occurrence_count := 10\<rparr>)) = ''shared_package''
   \<and> strategy (make_suggestion stub_models (group_ab\<lparr>occurrence_count := 11\<rparr>)) = ''mcp_server''"
  using strategy_by_thresholds [of stub_models "[group_ab]"
      "group_ab\<lparr>occurrence_count := 3\<rparr>" "group_ab\<lparr>occurrence_count := 4\<rparr>"
      "group_ab\<lparr>occurrence_count := 10\<rparr>" "group_ab\<lparr>occurrence_count := 11\<rparr>"]
  by (simp add: strategy_make_suggestion generate_suggestions_map group_ab_def)

section \<open>The pipeline, stage by stage\<close>

lemma group_duplicates_member:
  "g \<in> set (group_duplicates env blocks) \<Longrightarrow>
   \<exists>h bs. bs = filter (\<lambda>b. content_hash env b = h) blocks \<and> 2 \<le> length bs
          \<and> g = make_group h bs"
  by (auto simp: group_duplicates_buckets hash_groups_member)

lemma group_duplicates_count:
  "g \<in> set (group_duplicates env blocks) \<Longrightarrow> 2 \<le> occurrence_count g"
  by (auto dest!: group_duplicates_member simp: make_group_def)

lemma loc_reduction_sum_eq:
  "\<forall>g \<in> set gs. occurrence_count g \<noteq> 0 \<Longrightarrow>
   loc_reduction_sum acc gs =
     Inr (acc + sum_list (map (\<lambda>g. total_lines g - total_lines g div occurrence_count g) gs))"
  by (induction gs arbitrary: acc) (simp_all add: floordiv_def)

lemma calculate_metrics_groups:
  "calculate_metrics blocks (group_duplicates env bs) suggs =
     Inr \<lparr>total_code_blocks = int (length blocks),
          total_duplicate_groups = int (length (group_duplicates env bs)),
          exact_duplicates =
            int (length (filter (\<lambda>g. similarity_method g = ''exact'') (group_duplicates env bs))),
          structural_duplicates = 0,
          semantic_duplicates = 0,
          total_duplicated_lines = sum_list (map total_lines (group_duplicates env bs)),
          potential_loc_reduction =
            sum_list (map (\<lambda>g. total_lines g - total_lines g div occurrence_count g)
              (group_duplicates env bs)),
          duplication_percentage = 0,
          total_suggestions = int (length suggs),
          quick_wins = int (length (filter (\<lambda>s. complexity s = ''trivial'') suggs)),
          high_priority_suggestions =
            int (length (filter (\<lambda>s. cs_impact_score s \<ge> 75) suggs))\<rparr>"
proof -
  have "\<forall>g \<in> set (group_duplicates env bs). occurrence_count g \<noteq> 0"
    using group_duplicates_count by fastforce
  then show ?thesis
    by (simp add: calculate_metrics_def loc_reduction_sum_eq)
qed

text \<open>What main returns, stage by stage.\<close>

lemma main_stages:
  assumes "main env inp = Inr r"
  shows "\<exists>repo pm. obj_get inp ''repository_info'' = Some repo \<and>
           obj_get inp ''pattern_matches'' = Some pm \<and>
           extract_code_blocks env pm repo = Inr (code_blocks r, warnings r)"
    and "duplicate_groups r = group_duplicates env (code_blocks r)"
    and "suggestions r = generate_suggestions env (duplicate_groups r)"
    and "calculate_metrics (code_blocks r) (duplicate_groups r) (suggestions r) = Inr (metrics r)"
proof -
  from assms obtain repo pm ex m where
    1: "obj_get inp ''repository_info'' = Some repo"
    and 2: "obj_get inp ''pattern_matches'' = Some pm"
    and 3: "extract_code_blocks env pm repo = Inr ex"
    and 4: "calculate_metrics (fst ex) (group_duplicates env (fst ex))
              (generate_suggestions env (group_duplicates env (fst ex))) = Inr m"
    and 5: "r = \<lparr>code_blocks = fst ex, duplicate_groups = group_duplicates env (fst ex),
                 suggestions = generate_suggestions env (group_duplicates env (fst ex)),
                 metrics = m, warnings = snd ex\<rparr>"
    unfolding main_def Let_def
    by (elim and_then_InrE) (auto simp: getitem_Inr and_then_Inr split: if_splits)
  from 1 2 3 5
  show "\<exists>repo pm. obj_get inp ''repository_info'' = Some repo \<and>
           obj_get inp ''pattern_matches'' = Some pm \<and>
           extract_code_blocks env pm repo = Inr (code_blocks r, warnings r)"
    by (intro exI [of _ repo] exI [of _ pm]) simp
  from 5 show "duplicate_groups r = group_duplicates env (code_blocks r)" by simp
  from 5 show "suggestions r = generate_suggestions env (duplicate_groups r)" by simp
  from 4 5
  show "calculate_metrics (code_blocks r) (duplicate_groups r) (suggestions r) = Inr (metrics r)"
    by simp
qed

text \<open>
  When the constructors of the later stages accept everything and serialisation
  succeeds, main returns whatever the extractor returns.
\<close>

lemma main_returns:
  assumes "obj_get inp ''repository_info'' = Some repo"
    and "obj_get inp ''pattern_matches'' = Some pm"
    and "extract_code_blocks env pm repo = Inr (bs, ws)"
    and "\<forall>g. group_valid env g" and "\<forall>s. suggestion_valid env s"
    and "\<forall>r. serializable env r"
  shows "\<exists>r. main env inp = Inr r \<and> code_blocks r = bs \<and> warnings r = ws"
proof -
  have 1: "getitem inp ''repository_info'' = Inr repo" using assms(1) by (simp add: getitem_Inr)
  have 2: "getitem inp ''pattern_matches'' = Inr pm" using assms(2) by (simp add: getitem_Inr)
  have 3: "list_all (group_valid env) gs" for gs using assms(4) by (simp add: list_all_iff)
  have 4: "list_all (suggestion_valid env) ss" for ss using assms(5) by (simp add: list_all_iff)
  show ?thesis
    by (simp add: main_def Let_def 1 2 3 4 assms(3,6) calculate_metrics_groups)
qed

lemma stub_accepts:
  "\<forall>g. group_valid stub_models g" "\<forall>s. suggestion_valid stub_models s"
  "\<forall>r. serializable stub_models r"
  by (simp_all add: stub_models_def)

lemma scenario_main:
  "\<exists>r. main stub_models scenario_input = Inr r
       \<and> code_blocks r = [block_a, block_b, block_c]
       \<and> duplicate_groups r = [group_ab]"
proof -
  have 1: "obj_get scenario_input ''repository_info'' = Some scenario_repo"
    and 2: "obj_get scenario_input ''pattern_matches'' = Some (JArr [match_a, match_b, match_c])"
    by (simp_all add: scenario_input_def)
  from main_returns [OF 1 2 scenario_blocks stub_accepts]
  obtain r where r: "main stub_models scenario_input = Inr r"
    and b: "code_blocks r = [block_a, block_b, block_c]"
    by auto
  from main_stages(2) [OF r] b have "duplicate_groups r = [group_ab]"
    by (simp add: scenario_groups)
  with r b show ?thesis by (intro exI [of _ r]) simp
qed

section \<open>The count of quick wins\<close>

lemma complexity_make_suggestion: "complexity (make_suggestion env g) = ''simple''"
  by (simp add: make_suggestion_def Let_def)

lemma no_trivial_suggestion:
  "filter (\<lambda>s. complexity s = ''trivial'') (generate_suggestions env gs) = []"
  by (simp add: generate_suggestions_map filter_empty_conv complexity_make_suggestion)

text \<open>
  Claim C10. In every result of the pipeline the \<open>quick_wins\<close> metric is 0: every
  generated suggestion has complexity \<^verbatim>\<open>simple\<close>, and \<open>quick_wins\<close> counts the
  suggestions whose complexity is \<^verbatim>\<open>trivial\<close>.
\<close>

theorem quick_wins_zero:
  "main env inp = Inr r \<longrightarrow>
     quick_wins (metrics r) = 0 \<and> (\<forall>s \<in> set (suggestions r). complexity s = ''simple'')"
proof (intro conjI impI)
  assume r: "main env inp = Inr r"
  have m: "calculate_metrics (code_blocks r) (group_duplicates env (code_blocks r))
             (suggestions r) = Inr (metrics r)"
    using main_stages(2,4) [OF r] by simp
  have "quick_wins (metrics r) =
          int (length (filter (\<lambda>s. complexity s = ''trivial'') (suggestions r)))"
    using m unfolding calculate_metrics_groups by (cases "metrics r") simp
  then show "quick_wins (metrics r) = 0"
    by (simp add: main_stages(3) [OF r] no_trivial_suggestion)
  show "\<forall>s \<in> set (suggestions r). complexity s = ''simple''"
    by (auto simp: main_stages(3) [OF r] generate_suggestions_map complexity_make_suggestion)
qed

theorem quick_wins_zero_witness:
  "\<exists>r. main stub_models scenario_input = Inr r \<and> quick_wins (metrics r) = 0
       \<and> map complexity (suggestions r) = [''simple'']"
proof -
  obtain r where r: "main stub_models scenario_input = Inr r"
    and g: "duplicate_groups r = [group_ab]"
    using scenario_main by auto
  have "quick_wins (metrics r) = 0"
    using quick_wins_zero [of stub_models scenario_input r] r by simp
  moreover have "map complexity (suggestions r) = [''simple'']"
    by (simp add: main_stages(3) [OF r] g generate_suggestions_map complexity_make_suggestion)
  ultimately show ?thesis using r by (intro exI [of _ r]) simp
qed

section \<open>The count of exact duplicates\<close>

lemma similarity_method_group:
  "g \<in> set (group_duplicates env blocks) \<Longrightarrow> similarity_method g = ''exact_match''"
  by (auto dest!: group_duplicates_member simp: make_group_def)

lemma similarity_score_group:
  "g \<in> set (group_duplicates env blocks) \<Longrightarrow> similarity_score g = 1"
  by (auto dest!: group_duplicates_member simp: make_group_def)

lemma no_exact_group:
  "filter (\<lambda>g. similarity_method g = ''exact'') (group_duplicates env blocks) = []"
  by (auto simp: filter_empty_conv dest: similarity_method_group)

text \<open>On every input the filter of the metric selects no group.\<close>

lemma exact_duplicates_zero:
  assumes r: "main env inp = Inr r"
  shows "exact_duplicates (metrics r) = 0"
proof -
  have m: "calculate_metrics (code_blocks r) (group_duplicates env (code_blocks r))
             (suggestions r) = Inr (metrics r)"
    using main_stages(2,4) [OF r] by simp
  have "exact_duplicates (metrics r) =
          int (length (filter (\<lambda>g. similarity_method g = ''exact'')
            (group_duplicates env (code_blocks r))))"
    using m unfolding calculate_metrics_groups by (cases "metrics r") simp
  then show ?thesis by (simp add: no_exact_group)
qed

lemma total_duplicate_groups_length:
  assumes r: "main env inp = Inr r"
  shows "total_duplicate_groups (metrics r) = int (length (duplicate_groups r))"
proof -
  have m: "calculate_metrics (code_blocks r) (group_duplicates env (code_blocks r))
             (suggestions r) = Inr (metrics r)"
    using main_stages(2,4) [OF r] by simp
  show ?thesis
    using m unfolding calculate_metrics_groups main_stages(2) [OF r]
    by (cases "metrics r") simp
qed

text \<open>
  Claim C1. The claim is that \<open>exact_duplicates\<close> equals the number of emitted groups.
  On the end-to-end scenario the grouper emits one group, tagged \<^verbatim>\<open>exact_match\<close>, and
  \<open>total_duplicate_groups\<close> is 1, but \<open>exact_duplicates\<close> is 0: the metric compares the
  tag with \<^verbatim>\<open>exact\<close>, which the grouper never produces.
\<close>

theorem exact_duplicates_scenario:
  "\<exists>r. main stub_models scenario_input = Inr r
       \<and> map similarity_method (duplicate_groups r) = [''exact_match'']
       \<and> total_duplicate_groups (metrics r) = 1
       \<and> exact_duplicates (metrics r) = 0"
proof -
  obtain r where r: "main stub_models scenario_input = Inr r"
    and g: "duplicate_groups r = [group_ab]"
    using scenario_main by blast
  have "map similarity_method (duplicate_groups r) = [''exact_match'']"
    by (simp add: g group_ab_def)
  moreover have "total_duplicate_groups (metrics r) = 1"
    by (simp add: total_duplicate_groups_length [OF r] g)
  moreover have "exact_duplicates (metrics r) = 0"
    by (rule exact_duplicates_zero [OF r])
  ultimately show ?thesis using r by (intro exI [of _ r]) simp
qed

section \<open>The confidence of a suggestion\<close>

lemma confidence_make_suggestion:
  "confidence (make_suggestion env g) = (if 0.95 \<le> similarity_score g then 0.9 else 0.7)"
  by (simp add: make_suggestion_def Let_def)

text \<open>
  Claim C9. The confidence of the suggestion generated for a group is 0.9 when the
  group's \<open>similarity_score\<close> is at least 0.95 and 0.7 otherwise. The grouper sets the
  score of every group to 1, so every suggestion generated from its groups, and every
  suggestion in a result of the pipeline, has confidence 0.9.
\<close>

theorem confidence_rule:
  "map confidence (generate_suggestions env gs)
     = map (\<lambda>g. if 0.95 \<le> similarity_score g then 0.9 else 0.7) gs
   \<and> (\<forall>g \<in> set (group_duplicates env blocks). similarity_score g = 1)
   \<and> (\<forall>s \<in> set (generate_suggestions env (group_duplicates env blocks)). confidence s = 0.9)
   \<and> (main env inp = Inr r \<longrightarrow> (\<forall>s \<in> set (suggestions r). confidence s = 0.9))"
proof (intro conjI impI)
  show "map confidence (generate_suggestions env gs)
     = map (\<lambda>g. if 0.95 \<le> similarity_score g then 0.9 else 0.7) gs"
    by (simp add: generate_suggestions_map confidence_make_suggestion)
  show "\<forall>g \<in> set (group_duplicates env blocks). similarity_score g = 1"
    by (simp add: similarity_score_group)
  show c: "\<forall>s \<in> set (generate_suggestions env (group_duplicates env blocks)). confidence s = 0.9"
    for blocks
    by (auto simp: generate_suggestions_map confidence_make_suggestion similarity_score_group)
  assume r: "main env inp = Inr r"
  show "\<forall>s \<in> set (suggestions r). confidence s = 0.9"
    using c [of "code_blocks r"] by (simp add: main_stages(2,3) [OF r])
qed

theorem confidence_rule_witness:
  "\<exists>r. main stub_models scenario_input = Inr r
       \<and> map similarity_score (duplicate_groups r) = [1]
       \<and> map confidence (suggestions r) = [0.9]
       \<and> confidence (make_suggestion stub_models (group_ab\<lparr>similarity_score := 0.8\<rparr>)) = 0.7"
proof -
  obtain r where r: "main stub_models scenario_input = Inr r"
    and g: "duplicate_groups r = [group_ab]"
    using scenario_main by blast
  note inst = confidence_rule [of stub_models "[group_ab\<lparr>similarity_score := 0.8\<rparr>]"
      "[block_a, block_b, block_c]" scenario_input r]
  have s: "suggestions r = [make_suggestion stub_models group_ab]"
    by (simp add: main_stages(3) [OF r] g generate_suggestions_map)
  from inst r have "\<forall>s \<in> set (suggestions r). confidence s = 0.9" by blast
  then have "map confidence (suggestions r) = [0.9]" by (simp add: s)
  moreover have "map similarity_score (duplicate_groups r) = [1]"
    by (simp add: g group_ab_def)
  moreover from inst
  have "confidence (make_suggestion stub_models (group_ab\<lparr>similarity_score := 0.8\<rparr>)) = 0.7"
    by (simp add: generate_suggestions_map)
  ultimately show ?thesis using r by (intro exI [of _ r]) simp
qed

section \<open>The line count of a block\<close>

lemma extracted_line_count:
  assumes "extract_code_blocks env pm repo = Inr (bs, ws)" and "b \<in> set bs"
  shows "line_count b = line_end (location b) - line_start (location b) + 1"
    and "1 \<le> line_count b"
proof -
  from extracted_block_origin [OF assms] obtain m where "extract_block env repo m = Inr b"
    by auto
  from extract_block_fwd [OF this] obtain s e where "line_start (location b) = s"
    "line_end (location b) = e" "line_count b = e - s + 1" "s \<le> e"
    by auto
  then show "line_count b = line_end (location b) - line_start (location b) + 1"
    and "1 \<le> line_count b"
    by simp_all
qed





section \<open>The estimate of removable lines\<close>

lemma floor_share_bounds:
  fixes t n :: int
  assumes "0 \<le> t" and "2 \<le> n"
  shows "0 \<le> t - t div n" and "t - t div n \<le> t"
proof -
  have n: "0 < n" using assms(2) by simp
  have q0: "0 \<le> t div n" using assms(1) n by (simp add: pos_imp_zdiv_nonneg_iff)
  have "t div n \<le> t"
  proof (cases "t = 0")
    case True then show ?thesis by simp
  next
    case False
    then have "0 < t" using assms(1) by simp
    then have "t div n < t" using assms(2) by (intro int_div_less_self) simp_all
    then show ?thesis by simp
  qed
  then show "0 \<le> t - t div n" by simp
  from q0 show "t - t div n \<le> t" by simp
qed

lemma total_lines_nonneg:
  assumes "\<forall>b \<in> set blocks. 0 \<le> line_count b"
    and "g \<in> set (group_duplicates env blocks)"
  shows "0 \<le> total_lines g"
proof -
  from assms(2) obtain h where g: "g = make_group h (filter (\<lambda>b. content_hash env b = h) blocks)"
    using group_duplicates_member by blast
  have "0 \<le> sum_list (map line_count (filter (\<lambda>b. content_hash env b = h) blocks))"
    using assms(1) by (intro sum_list_nonneg) auto
  then show ?thesis by (simp add: g make_group_def)
qed

lemma potential_loc_reduction_eq:
  assumes r: "main env inp = Inr r"
  shows "potential_loc_reduction (metrics r) =
    sum_list (map (\<lambda>g. total_lines g - total_lines g div occurrence_count g) (duplicate_groups r))"
proof -
  have m: "calculate_metrics (code_blocks r) (group_duplicates env (code_blocks r))
             (suggestions r) = Inr (metrics r)"
    using main_stages(2,4) [OF r] by simp
  show ?thesis
    using m unfolding calculate_metrics_groups main_stages(2) [OF r]
    by (cases "metrics r") simp
qed

text \<open>The blocks of a result of the pipeline satisfy the invariant of CodeBlock.\<close>

lemma main_line_counts:
  assumes r: "main env inp = Inr r" and b: "b \<in> set (code_blocks r)"
  shows "1 \<le> line_count b"
proof -
  from main_stages(1) [OF r] obtain repo pm where
    "extract_code_blocks env pm repo = Inr (code_blocks r, warnings r)"
    by auto
  then show ?thesis using b by (rule extracted_line_count(2))
qed

lemma main_total_lines:
  assumes r: "main env inp = Inr r" and g: "g \<in> set (duplicate_groups r)"
  shows "0 \<le> total_lines g"
proof -
  have "\<forall>b \<in> set (code_blocks r). 0 \<le> line_count b"
    using main_line_counts [OF r] by fastforce
  then show ?thesis
    using g unfolding main_stages(2) [OF r] by (rule total_lines_nonneg)
qed

text \<open>
  Claim C4. In every result of the pipeline \<open>potential_loc_reduction\<close> is the sum over
  the duplicate groups of \<open>total_lines - total_lines div occurrence_count\<close>, with floor
  division, and the summand of every group lies between 0 and the group's
  \<open>total_lines\<close>. The bounds rest on the invariant \<open>line_count \<ge> 1\<close> of CodeBlock, which
  the constructor \<open>code_block_new\<close> enforces as the specification states it, so that no
  group has a negative \<open>total_lines\<close>.
\<close>

theorem loc_reduction_sum_and_bounds:
  "main env inp = Inr r \<longrightarrow>
     potential_loc_reduction (metrics r) =
       sum_list (map (\<lambda>g. total_lines g - total_lines g div occurrence_count g)
         (duplicate_groups r))
     \<and> (\<forall>g \<in> set (duplicate_groups r).
          0 \<le> total_lines g - total_lines g div occurrence_count g \<and>
          total_lines g - total_lines g div occurrence_count g \<le> total_lines g)"
proof (intro impI conjI ballI)
  assume r: "main env inp = Inr r"
  show "potential_loc_reduction (metrics r) =
       sum_list (map (\<lambda>g. total_lines g - total_lines g div occurrence_count g)
         (duplicate_groups r))"
    by (rule potential_loc_reduction_eq [OF r])
  fix g assume g: "g \<in> set (duplicate_groups r)"
  from g have n: "2 \<le> occurrence_count g"
    unfolding main_stages(2) [OF r] by (rule group_duplicates_count)
  have t: "0 \<le> total_lines g" using r g by (rule main_total_lines)
  show "0 \<le> total_lines g - total_lines g div occurrence_count g"
    using t n by (rule floor_share_bounds(1))
  show "total_lines g - total_lines g div occurrence_count g \<le> total_lines g"
    using t n by (rule floor_share_bounds(2))
qed

theorem loc_reduction_sum_and_bounds_witness:
  "\<exists>r. main stub_models scenario_input = Inr r
       \<and> duplicate_groups r = [group_ab]
       \<and> total_lines group_ab = 2 \<and> occurrence_count group_ab = 2
       \<and> potential_loc_reduction (metrics r) = 1
       \<and> 0 \<le> total_lines group_ab - total_lines group_ab div occurrence_count group_ab
       \<and> total_lines group_ab - total_lines group_ab div occurrence_count group_ab
            \<le> total_lines group_ab"
proof -
  obtain r where r: "main stub_models scenario_input = Inr r"
    and b: "code_blocks r = [block_a, block_b, block_c]"
    and g: "duplicate_groups r = [group_ab]"
    using scenario_main by auto
  note inst = loc_reduction_sum_and_bounds [of stub_models scenario_input r]
  have 2: "total_lines group_ab = 2" "occurrence_count group_ab = 2"
    by (simp_all add: group_ab_def)
  have 3: "potential_loc_reduction (metrics r) = 1"
    using inst r by (simp add: g group_ab_def)
  have 4: "0 \<le> total_lines group_ab - total_lines group_ab div occurrence_count group_ab"
    using inst r by (simp add: g)
  have 5: "total_lines group_ab - total_lines group_ab div occurrence_count group_ab
            \<le> total_lines group_ab"
    using inst r by (simp add: g)
  show ?thesis using r 2 3 4 5 g by (intro exI [of _ r]) simp
qed

section \<open>The category of a block\<close>



lemma category_map_get_unhashable:
  "\<not> hashable rid \<Longrightarrow> category_map_get rid = Inl TypeError"
  by (cases rid) simp_all







section \<open>Identifiers\<close>

lemma block_id_extract_block:
  assumes "extract_block env repo m = Inr b"
  shows "\<exists>fp ls digest. obj_get m ''file_path'' = Some fp \<and> obj_get m ''line_start'' = Some ls \<and>
           sha256_hexdigest env (py_str env fp @ '':'' @ py_str env ls) = Inr digest \<and>
           block_id b = ''cb_'' @ take 12 digest"
proof -
  from extract_block_fwd [OF assms] obtain fp s digest where
    1: "obj_get m ''file_path'' = Some (JStr fp)"
    and 2: "obj_get m ''line_start'' = Some (JInt s)"
    and 3: "sha256_hexdigest env (fp @ '':'' @ str_int s) = Inr digest"
    and 4: "block_id b = ''cb_'' @ take 12 digest"
    by auto
  have 5: "sha256_hexdigest env (py_str env (JStr fp) @ '':'' @ py_str env (JInt s)) = Inr digest"
    using 3 by simp
  show ?thesis
    using 1 2 5 4 by (intro exI [of _ "JStr fp"] exI [of _ "JInt s"] exI [of _ digest] conjI)
qed

lemma block_id_same_location:
  assumes "extract_block env repo m1 = Inr b1" and "extract_block env repo' m2 = Inr b2"
    and "obj_get m1 ''file_path'' = obj_get m2 ''file_path''"
    and "obj_get m1 ''line_start'' = obj_get m2 ''line_start''"
  shows "block_id b1 = block_id b2"
proof -
  from block_id_extract_block [OF assms(1)] obtain fp ls d where
    1: "obj_get m1 ''file_path'' = Some fp" "obj_get m1 ''line_start'' = Some ls"
       "sha256_hexdigest env (py_str env fp @ '':'' @ py_str env ls) = Inr d"
       "block_id b1 = ''cb_'' @ take 12 d"
    by auto
  from block_id_extract_block [OF assms(2)] obtain fp' ls' d' where
    2: "obj_get m2 ''file_path'' = Some fp'" "obj_get m2 ''line_start'' = Some ls'"
       "sha256_hexdigest env (py_str env fp' @ '':'' @ py_str env ls') = Inr d'"
       "block_id b2 = ''cb_'' @ take 12 d'"
    by auto
  from 1(1) 2(1) assms(3) have fp: "fp' = fp" by simp
  from 1(2) 2(2) assms(4) have ls: "ls' = ls" by simp
  from 1(3) 2(3) have "d' = d" unfolding fp ls by simp
  then show ?thesis using 1(4) 2(4) by simp
qed

lemma group_id_group_duplicates:
  assumes "g \<in> set (group_duplicates env blocks)"
  shows "\<exists>h \<in> content_hash env ` set blocks.
           group_id g = ''dg_'' @ take 12 h \<and>
           member_block_ids g = map block_id (filter (\<lambda>b. content_hash env b = h) blocks)"
proof -
  from assms obtain h where len: "2 \<le> length (filter (\<lambda>b. content_hash env b = h) blocks)"
    and g: "g = make_group h (filter (\<lambda>b. content_hash env b = h) blocks)"
    using group_duplicates_member by blast
  from len have "filter (\<lambda>b. content_hash env b = h) blocks \<noteq> []" by auto
  then obtain b where "b \<in> set blocks" "content_hash env b = h"
    by (auto simp: filter_empty_conv)
  then have "h \<in> content_hash env ` set blocks" by auto
  then show ?thesis
    by (intro bexI [of _ h]) (simp_all add: g make_group_def)
qed

lemma suggestion_id_make_suggestion:
  "suggestion_id (make_suggestion env g) = ''cs_'' @ group_id g"
  by (simp add: make_suggestion_def Let_def)

text \<open>
  Claim C7. The identifiers are derived deterministically: the \<open>block_id\<close> of an
  emitted block is \<^verbatim>\<open>cb_\<close> followed by the first 12 characters of the SHA-256 digest of
  the record's \<^verbatim>\<open>file_path\<close> and \<^verbatim>\<open>line_start\<close>, so two records that agree on these two
  fields get the same \<open>block_id\<close>; the \<open>group_id\<close> of a group is \<^verbatim>\<open>dg_\<close> followed by
  the first 12 characters of the content hash its members share; the
  \<open>suggestion_id\<close> is \<^verbatim>\<open>cs_\<close> followed by the \<open>group_id\<close>. Two runs of the pipeline on
  the same input give the same three lists of identifiers.
\<close>

theorem ids_are_stable:
  "(extract_code_blocks env pm repo = Inr (bs, ws) \<longrightarrow>
     (\<forall>b \<in> set bs. \<exists>ms. py_iter pm = Inr ms \<and> (\<exists>m \<in> set ms. \<exists>fp ls digest.
       obj_get m ''file_path'' = Some fp \<and> obj_get m ''line_start'' = Some ls \<and>
       sha256_hexdigest env (py_str env fp @ '':'' @ py_str env ls) = Inr digest \<and>
       block_id b = ''cb_'' @ take 12 digest)))
   \<and> (extract_block env repo m1 = Inr b1 \<and> extract_block env repo' m2 = Inr b2 \<and>
        obj_get m1 ''file_path'' = obj_get m2 ''file_path'' \<and>
        obj_get m1 ''line_start'' = obj_get m2 ''line_start''
        \<longrightarrow> block_id b1 = block_id b2)
   \<and> (\<forall>g \<in> set (group_duplicates env blocks). \<exists>h \<in> content_hash env ` set blocks.
         group_id g = ''dg_'' @ take 12 h \<and>
         member_block_ids g = map block_id (filter (\<lambda>b. content_hash env b = h) blocks))
   \<and> map suggestion_id (generate_suggestions env gs) = map (\<lambda>g. ''cs_'' @ group_id g) gs
   \<and> (main env inp = Inr r \<and> main env inp = Inr r' \<longrightarrow>
        map block_id (code_blocks r) = map block_id (code_blocks r') \<and>
        map group_id (duplicate_groups r) = map group_id (duplicate_groups r') \<and>
        map suggestion_id (suggestions r) = map suggestion_id (suggestions r'))"
proof (intro conjI impI ballI)
  fix b assume r: "extract_code_blocks env pm repo = Inr (bs, ws)" and "b \<in> set bs"
  from extracted_block_origin [OF this] obtain ms m where ms: "py_iter pm = Inr ms"
    and m: "m \<in> set ms" and b: "extract_block env repo m = Inr b"
    by auto
  from block_id_extract_block [OF b] ms m
  show "\<exists>ms. py_iter pm = Inr ms \<and> (\<exists>m \<in> set ms. \<exists>fp ls digest.
       obj_get m ''file_path'' = Some fp \<and> obj_get m ''line_start'' = Some ls \<and>
       sha256_hexdigest env (py_str env fp @ '':'' @ py_str env ls) = Inr digest \<and>
       block_id b = ''cb_'' @ take 12 digest)"
    by (intro exI [of _ ms] conjI bexI [of _ m]) simp_all
next
  assume a: "extract_block env repo m1 = Inr b1 \<and> extract_block env repo' m2 = Inr b2 \<and>
        obj_get m1 ''file_path'' = obj_get m2 ''file_path'' \<and>
        obj_get m1 ''line_start'' = obj_get m2 ''line_start''"
  then show "block_id b1 = block_id b2"
    by (intro block_id_same_location [of env repo m1 b1 repo' m2 b2]) simp_all
next
  fix g assume "g \<in> set (group_duplicates env blocks)"
  then show "\<exists>h \<in> content_hash env ` set blocks.
         group_id g = ''dg_'' @ take 12 h \<and>
         member_block_ids g = map block_id (filter (\<lambda>b. content_hash env b = h) blocks)"
    by (rule group_id_group_duplicates)
next
  show "map suggestion_id (generate_suggestions env gs) = map (\<lambda>g. ''cs_'' @ group_id g) gs"
    by (simp add: generate_suggestions_map suggestion_id_make_suggestion)
next
  assume a: "main env inp = Inr r \<and> main env inp = Inr r'"
  then have "main env inp = Inr r" and "main env inp = Inr r'" by blast+
  then have "(Inr r :: py_error + pipeline_result) = Inr r'" by (rule trans [OF sym])
  then have e: "r = r'" by (rule Inr_inject)
  show "map block_id (code_blocks r) = map block_id (code_blocks r')" by (simp add: e)
  show "map group_id (duplicate_groups r) = map group_id (duplicate_groups r')" by (simp add: e)
  show "map suggestion_id (suggestions r) = map suggestion_id (suggestions r')" by (simp add: e)
qed

lemma block_a_extracted: "extract_block stub_models scenario_repo match_a = Inr block_a"
  by (simp add: extract_block_def source_location_new_def code_block_new_def sub_plus_one_def
      stub_models_def match_a_def scenario_repo_def category_map_def block_a_def str_int_def)

lemma block_a2_extracted:
  "\<exists>b. extract_block stub_models scenario_repo match_a2 = Inr b \<and>
       source_code b = ''return 0;'' \<and> line_count b = 3"
  by (simp add: extract_block_def source_location_new_def code_block_new_def sub_plus_one_def
      stub_models_def match_a2_def scenario_repo_def category_map_def str_int_def)

theorem ids_are_stable_witness:
  "(\<exists>r. main stub_models scenario_input = Inr r
       \<and> map block_id (code_blocks r) = [''cb_a.js:10'', ''cb_b.js:22'', ''cb_c.js:1'']
       \<and> map group_id (duplicate_groups r) = [''dg_if (x) retur'']
       \<and> map suggestion_id (suggestions r) = [''cs_dg_if (x) retur''])
   \<and> obj_get match_a ''file_path'' = obj_get match_a2 ''file_path''
   \<and> obj_get match_a ''line_start'' = obj_get match_a2 ''line_start''
   \<and> extract_block stub_models scenario_repo match_a = Inr block_a
   \<and> (\<exists>b. extract_block stub_models scenario_repo match_a2 = Inr b
          \<and> source_code b \<noteq> source_code block_a \<and> block_id b = block_id block_a)"
proof -
  obtain r where r: "main stub_models scenario_input = Inr r"
    and b: "code_blocks r = [block_a, block_b, block_c]"
    and g: "duplicate_groups r = [group_ab]"
    using scenario_main by auto
  obtain b2 where b2: "extract_block stub_models scenario_repo match_a2 = Inr b2"
    and l2: "source_code b2 = ''return 0;''"
    using block_a2_extracted by auto
  note inst = ids_are_stable [of stub_models "JArr [match_a, match_b, match_c]" scenario_repo
      "[block_a, block_b, block_c]" "[]" match_a block_a scenario_repo match_a2 b2
      "[block_a, block_b, block_c]" "[group_ab]" scenario_input r r]
  have 1: "map block_id (code_blocks r) = [''cb_a.js:10'', ''cb_b.js:22'', ''cb_c.js:1'']"
    by (simp add: b block_a_def block_b_def block_c_def)
  have 2: "map group_id (duplicate_groups r) = [''dg_if (x) retur'']"
    by (simp add: g group_ab_def)
  from inst have "map suggestion_id (generate_suggestions stub_models [group_ab])
      = map (\<lambda>g. ''cs_'' @ group_id g) [group_ab]"
    by (elim conjE)
  then have 3: "map suggestion_id (suggestions r) = [''cs_dg_if (x) retur'']"
    by (simp add: main_stages(3) [OF r] g group_ab_def)
  have 4: "obj_get match_a ''file_path'' = obj_get match_a2 ''file_path''"
    by (simp add: match_a_def match_a2_def)
  have 5: "obj_get match_a ''line_start'' = obj_get match_a2 ''line_start''"
    by (simp add: match_a_def match_a2_def)
  from inst block_a_extracted b2 4 5 have 6: "block_id block_a = block_id b2"
    by (elim conjE) simp
  have 7: "source_code b2 \<noteq> source_code block_a" by (simp add: l2 block_a_def)
  have first: "\<exists>r. main stub_models scenario_input = Inr r
       \<and> map block_id (code_blocks r) = [''cb_a.js:10'', ''cb_b.js:22'', ''cb_c.js:1'']
       \<and> map group_id (duplicate_groups r) = [''dg_if (x) retur'']
       \<and> map suggestion_id (suggestions r) = [''cs_dg_if (x) retur'']"
    using r 1 2 3 by (intro exI [of _ r]) simp
  have last: "\<exists>b. extract_block stub_models scenario_repo match_a2 = Inr b
          \<and> source_code b \<noteq> source_code block_a \<and> block_id b = block_id block_a"
    using b2 6 7 by (intro exI [of _ b2]) simp
  show ?thesis using first 4 5 block_a_extracted last by (intro conjI)
qed

section \<open>Blocks and warnings of a batch\<close>














end
